theory Spec2Isabelle
  imports Main
begin

section \<open>A shallow embedding of the bytecode interpreter (solutions/interpreter.py)\<close>

subsection \<open>Values and types of the jvm library\<close>

text \<open>
  The interpreter imports its value and instruction classes from the \<open>jpamb.jvm\<close>
  library. The types it tests with \<open>isinstance\<close> are listed by name (\<open>jvm.Int\<close>
  is \<open>IntT\<close>, \<open>jvm.Char\<close> is \<open>CharT\<close>); every other type of the library is
  \<open>OtherType\<close>.
\<close>

datatype jtype =
    IntT
  | Boolean
  | CharT
  | Reference
  | Object string
  | OtherType string

text \<open>
  The payload of a \<open>jvm.Value\<close> is a Python object. The interpreter builds and
  inspects \<open>None\<close>, integers, booleans and strings (a character is a string of
  length one). Python strings are modelled as \<open>string\<close>.
\<close>

datatype payload =
    PNone
  | PInt int
  | PBool bool
  | PStr string

datatype jvalue = Value (vtype: jtype) (payload: payload)

text \<open>The constructors \<open>jvm.Value.int\<close>, \<open>jvm.Value.boolean\<close> and \<open>jvm.Value.char\<close>.\<close>

definition Value_int :: "int \<Rightarrow> jvalue" where
  "Value_int n = Value IntT (PInt n)"

definition Value_boolean :: "bool \<Rightarrow> jvalue" where
  "Value_boolean b = Value Boolean (PBool b)"

definition Value_char :: "string \<Rightarrow> jvalue" where
  "Value_char c = Value CharT (PStr c)"

text \<open>
  Python exceptions that leave \<open>step\<close>: the internal errors of the interpreter.
  \<open>LoaderError\<close> is an exception of the class-loading collaborator. \<open>FormatUnmodelled\<close> is
  not a Python exception: it marks the one operation whose result this model does not
  compute, \<open>%\<close> with a text on the left that holds a conversion specifier.
\<close>

datatype error =
    IndexError
  | TypeError
  | ZeroDivisionError
  | AssertionFailure
  | RuntimeError
  | NotImplementedError
  | LoaderError
  | FormatUnmodelled

subsection \<open>Python operations on payloads\<close>

text \<open>A bool is an int in Python arithmetic and comparisons.\<close>

fun as_num :: "payload \<Rightarrow> int option" where
  "as_num (PInt n) = Some n"
| "as_num (PBool b) = Some (if b then 1 else 0)"
| "as_num PNone = None"
| "as_num (PStr s) = None"

text \<open>Truthiness, as in \<open>1 if value.value else 0\<close>.\<close>

fun py_truthy :: "payload \<Rightarrow> bool" where
  "py_truthy PNone = False"
| "py_truthy (PInt n) = (n \<noteq> 0)"
| "py_truthy (PBool b) = b"
| "py_truthy (PStr s) = (s \<noteq> [])"

text \<open>\<open>==\<close> never raises; ints and bools compare by number.\<close>

fun py_eq :: "payload \<Rightarrow> payload \<Rightarrow> bool" where
  "py_eq PNone PNone = True"
| "py_eq (PStr s) (PStr t) = (s = t)"
| "py_eq a b = (case (as_num a, as_num b) of (Some x, Some y) \<Rightarrow> x = y | _ \<Rightarrow> False)"

text \<open>Strings are ordered lexicographically by code point.\<close>

fun str_less :: "string \<Rightarrow> string \<Rightarrow> bool" where
  "str_less [] [] = False"
| "str_less [] (d # t) = True"
| "str_less (c # s) [] = False"
| "str_less (c # s) (d # t) =
     ((of_char c :: nat) < of_char d \<or> (c = d \<and> str_less s t))"

text \<open>\<open><\<close> and \<open><=\<close> raise TypeError on operands that are not both numbers or both strings.\<close>

fun py_lt :: "payload \<Rightarrow> payload \<Rightarrow> error + bool" where
  "py_lt (PStr s) (PStr t) = Inr (str_less s t)"
| "py_lt a b = (case (as_num a, as_num b) of (Some x, Some y) \<Rightarrow> Inr (x < y) | _ \<Rightarrow> Inl TypeError)"

fun py_le :: "payload \<Rightarrow> payload \<Rightarrow> error + bool" where
  "py_le (PStr s) (PStr t) = Inr (s = t \<or> str_less s t)"
| "py_le a b = (case (as_num a, as_num b) of (Some x, Some y) \<Rightarrow> Inr (x \<le> y) | _ \<Rightarrow> Inl TypeError)"

text \<open>\<open>str(n)\<close> for an integer: decimal digits, with a minus sign when negative.\<close>

definition digit_char :: "nat \<Rightarrow> char" where
  "digit_char d = char_of (48 + d)"

function str_of_nat :: "nat \<Rightarrow> string" where
  "str_of_nat n = (if n < 10 then [digit_char n] else str_of_nat (n div 10) @ [digit_char (n mod 10)])"
  by pat_completeness auto
termination
  by (relation "measure id") auto

declare str_of_nat.simps [simp del]

definition str_of_int :: "int \<Rightarrow> string" where
  "str_of_int i = (if i < 0 then CHR ''-'' # str_of_nat (nat (- i)) else str_of_nat (nat i))"

fun py_str :: "payload \<Rightarrow> string" where
  "py_str PNone = ''None''"
| "py_str (PInt n) = str_of_int n"
| "py_str (PBool b) = (if b then ''True'' else ''False'')"
| "py_str (PStr s) = s"

text \<open>\<open>s.index(sub)\<close>: the lowest position where \<open>sub\<close> occurs, \<open>None\<close> for ValueError.\<close>

definition starts_with :: "string \<Rightarrow> string \<Rightarrow> bool" where
  "starts_with s sub = (take (length sub) s = sub)"

fun str_index :: "string \<Rightarrow> string \<Rightarrow> nat option" where
  "str_index [] sub = (if sub = [] then Some 0 else None)"
| "str_index (c # cs) sub =
     (if starts_with (c # cs) sub then Some 0 else map_option Suc (str_index cs sub))"

text \<open>\<open>sub in s\<close> on strings.\<close>

definition str_in :: "string \<Rightarrow> string \<Rightarrow> bool" where
  "str_in sub s = (str_index s sub \<noteq> None)"

text \<open>
  \<open>s[i]\<close> and \<open>s[b:e]\<close> with Python's treatment of negative and oversized indices:
  an index below zero counts from the end, a slice bound is clamped to the string.
\<close>

definition py_getitem :: "'a list \<Rightarrow> int \<Rightarrow> error + 'a" where
  "py_getitem xs i =
     (if 0 \<le> i \<and> i < int (length xs) then Inr (xs ! nat i)
      else if - int (length xs) \<le> i \<and> i < 0 then Inr (xs ! nat (int (length xs) + i))
      else Inl IndexError)"

definition slice_bound :: "nat \<Rightarrow> int \<Rightarrow> nat" where
  "slice_bound n i =
     (if i < 0 then nat (max 0 (int n + i)) else min n (nat i))"

definition py_slice :: "'a list \<Rightarrow> int \<Rightarrow> int \<Rightarrow> 'a list" where
  "py_slice xs b e =
     (let lo = slice_bound (length xs) b; hi = slice_bound (length xs) e
      in take (hi - lo) (drop lo xs))"

definition py_slice_from :: "'a list \<Rightarrow> int \<Rightarrow> 'a list" where
  "py_slice_from xs b = drop (slice_bound (length xs) b) xs"

subsection \<open>Instructions\<close>

text \<open>
  Of a method reference the interpreter reads \<open>str(m.classname)\<close>,
  \<open>m.methodid.name\<close>, \<open>m.methodid.params\<close> and \<open>m.methodid.return_type\<close>; of a field
  reference it reads \<open>f.extension.name\<close>.
\<close>

record AbsMethodID =
  classname :: string
  name :: string
  params :: "jtype list"
  return_type :: "jtype option"

record AbsFieldID =
  field_classname :: string
  field_name :: string

text \<open>\<open>OtherOpr\<close> stands for a member of \<open>jvm.BinaryOpr\<close> that \<open>step\<close> does not name.\<close>

datatype BinaryOpr = Div | Add | Sub | Mul | Rem | OtherOpr

text \<open>
  The instruction classes that \<open>step\<close> matches, with the fields it binds
  (\<open>jvm.If\<close> is \<open>If_op\<close>); \<open>Unsupported\<close> is any other instruction of the library.
\<close>

datatype opcode =
    Push jvalue
  | Load jtype int
  | Store jtype int
  | Binary jtype BinaryOpr
  | Ifz string int
  | If_op string int
  | Goto int
  | New string
  | Dup int
  | Get bool AbsFieldID
  | Throw
  | InvokeVirtual AbsMethodID
  | InvokeStatic AbsMethodID
  | InvokeSpecial AbsMethodID
  | Return "jtype option"
  | Unsupported string

subsection \<open>PC, Bytecode, Stack, Frame, State\<close>

text \<open>A program counter: the method and the offset of the next instruction.\<close>

record PC = "method" :: AbsMethodID
  offset :: int

definition pc_iadd :: "PC \<Rightarrow> int \<Rightarrow> PC" where
  "pc_iadd p delta = p\<lparr>offset := offset p + delta\<rparr>"

text \<open>
  \<open>suite\<close> is the class-loading collaborator (\<open>suite.method_opcodes\<close>, which may raise);
  \<open>methods\<close> is the cache that \<open>__getitem__\<close> fills.
\<close>

record Bytecode =
  suite :: "AbsMethodID \<Rightarrow> error + opcode list"
  methods :: "AbsMethodID \<rightharpoonup> opcode list"

text \<open>\<open>Bytecode.__getitem__\<close>: the instruction, or the exception, and the cache afterwards.\<close>

definition getitem :: "Bytecode \<Rightarrow> PC \<Rightarrow> (error + opcode) \<times> Bytecode" where
  "getitem b p =
     (case methods b (method p) of
        Some opcodes \<Rightarrow> (py_getitem opcodes (offset p), b)
      | None \<Rightarrow>
          (case suite b (method p) of
             Inl e \<Rightarrow> (Inl e, b)
           | Inr opcodes \<Rightarrow>
               (py_getitem opcodes (offset p),
                b\<lparr>methods := (methods b)(method p \<mapsto> opcodes)\<rparr>)))"

text \<open>A \<open>Stack\<close> is its \<open>items\<close> list: the top is the last element.\<close>

definition pop :: "'a list \<Rightarrow> ('a \<times> 'a list) option" where
  "pop items = (if items = [] then None else Some (last items, butlast items))"

record Frame =
  locals :: "int \<rightharpoonup> jvalue"
  stack :: "jvalue list"
  pc :: PC

definition from_method :: "AbsMethodID \<Rightarrow> Frame" where
  "from_method m = \<lparr>locals = Map.empty, stack = [], pc = \<lparr>method = m, offset = 0\<rparr>\<rparr>"

record State =
  heap :: "int \<rightharpoonup> jvalue"
  frames :: "Frame list"

text \<open>
  \<open>step\<close> mutates the State in place and returns it, returns an outcome string, or
  raises. \<open>Continue\<close> and \<open>Outcome\<close> carry the State as the call leaves it.
\<close>

datatype result =
    Continue State
  | Outcome string State
  | Raise error

text \<open>Writing the top frame back; pushing on its stack and advancing its pc.\<close>

definition set_top :: "State \<Rightarrow> Frame \<Rightarrow> State" where
  "set_top st fr = st\<lparr>frames := butlast (frames st) @ [fr]\<rparr>"

definition push_next :: "State \<Rightarrow> Frame \<Rightarrow> jvalue list \<Rightarrow> jvalue \<Rightarrow> result" where
  "push_next st fr stk v =
     Continue (set_top st (fr\<lparr>stack := stk @ [v], pc := pc_iadd (pc fr) 1\<rparr>))"

subsection \<open>Built-in method emulation\<close>

text \<open>The emulation returns a Value, a string (a fault outcome) or \<open>None\<close>.\<close>

datatype inv_result = RValue jvalue | RStr string | RNone

definition is_str :: "payload \<Rightarrow> bool" where
  "is_str p = (case p of PStr s \<Rightarrow> True | _ \<Rightarrow> False)"

definition substring1 :: "string \<Rightarrow> jvalue \<Rightarrow> error + inv_result" where
  "substring1 string_value a0 =
     (case as_num (payload a0) of
        None \<Rightarrow> Inl TypeError
      | Some begin_ix \<Rightarrow>
          if begin_ix < 0 \<or> begin_ix > int (length string_value) then Inr (RStr ''out of bounds'')
          else Inr (RValue (Value Reference (PStr (py_slice_from string_value begin_ix)))))"

definition substring2 :: "string \<Rightarrow> jvalue \<Rightarrow> jvalue \<Rightarrow> error + inv_result" where
  "substring2 string_value a0 a1 =
     (case as_num (payload a0) of
        None \<Rightarrow> Inl TypeError
      | Some begin_ix \<Rightarrow>
          if begin_ix < 0 then Inr (RStr ''out of bounds'')
          else
            (case as_num (payload a1) of
               None \<Rightarrow> Inl TypeError
             | Some end_ix \<Rightarrow>
                 if end_ix > int (length string_value) \<or> begin_ix > end_ix
                 then Inr (RStr ''out of bounds'')
                 else Inr (RValue (Value Reference (PStr (py_slice string_value begin_ix end_ix))))))"

definition charAt :: "string \<Rightarrow> jvalue \<Rightarrow> error + inv_result" where
  "charAt string_value a0 =
     (case as_num (payload a0) of
        None \<Rightarrow> Inl TypeError
      | Some index \<Rightarrow>
          if index < 0 \<or> index \<ge> int (length string_value) then Inr (RStr ''out of bounds'')
          else
            (case py_getitem string_value index of
               Inl e \<Rightarrow> Inl e
             | Inr c \<Rightarrow> Inr (RValue (Value_char [c]))))"

definition string_method :: "string \<Rightarrow> string \<Rightarrow> jvalue list \<Rightarrow> error + inv_result" where
  "string_method method_name string_value args =
     (if method_name = ''length'' then
        (if length args = 0 then Inr (RValue (Value_int (int (length string_value))))
         else Inr RNone)
      else if method_name = ''charAt'' then
        (if length args = 1 \<and> vtype (args ! 0) = IntT then charAt string_value (args ! 0)
         else Inr RNone)
      else if method_name = ''equals'' then
        (if length args = 1 then
           (if payload (args ! 0) = PNone then Inr (RValue (Value_boolean False))
            else Inr (RValue (Value_boolean (string_value = py_str (payload (args ! 0))))))
         else Inr RNone)
      else if method_name = ''isEmpty'' then
        (if length args = 0 then Inr (RValue (Value_boolean (length string_value = 0)))
         else Inr RNone)
      else if method_name = ''substring'' then
        (if length args = 1 \<and> vtype (args ! 0) = IntT then substring1 string_value (args ! 0)
         else if length args = 2 \<and> vtype (args ! 0) = IntT \<and> vtype (args ! 1) = IntT
         then substring2 string_value (args ! 0) (args ! 1)
         else Inr RNone)
      else if method_name = ''indexOf'' then
        (if length args = 1 then
           (if payload (args ! 0) = PNone then Inr (RStr ''null pointer'')
            else
              (case str_index string_value (py_str (payload (args ! 0))) of
                 Some index \<Rightarrow> Inr (RValue (Value_int (int index)))
               | None \<Rightarrow> Inr (RValue (Value_int (- 1)))))
         else Inr RNone)
      else if method_name = ''concat'' then
        (if length args = 1 then
           (if payload (args ! 0) = PNone then Inr (RStr ''null pointer'')
            else Inr (RValue (Value Reference
                   (PStr (string_value @ py_str (payload (args ! 0)))))))
         else Inr RNone)
      else Inr RNone)"

definition handle_string_method ::
    "string \<Rightarrow> jvalue option \<Rightarrow> jvalue list \<Rightarrow> jtype option \<Rightarrow> error + inv_result" where
  "handle_string_method method_name obj_ref args rt =
     (case obj_ref of
        None \<Rightarrow> Inr (RStr ''null pointer'')
      | Some r \<Rightarrow>
          if \<not> is_str (payload r) then
            (if payload r = PNone then Inr (RStr ''null pointer'')
             else string_method method_name (py_str (payload r)) args)
          else string_method method_name (py_str (payload r)) args)"

definition ends_with :: "string \<Rightarrow> string \<Rightarrow> bool" where
  "ends_with s suffix = (drop (length s - length suffix) s = suffix \<and> length suffix \<le> length s)"

definition handle_method_invocation ::
    "AbsMethodID \<Rightarrow> jvalue option \<Rightarrow> jvalue list \<Rightarrow> error + inv_result" where
  "handle_method_invocation m obj_ref args =
     (if str_in ''AssertionError'' (classname m) \<and> name m = ''<init>'' then Inr RNone
      else if str_in ''String'' (classname m) \<or> ends_with (classname m) ''String''
      then handle_string_method (name m) obj_ref args (return_type m)
      else Inr RNone)"

subsection \<open>The dispatch engine\<close>

text \<open>The six relations of \<open>Ifz\<close> and \<open>If\<close>; an unknown condition raises.\<close>

definition compare :: "string \<Rightarrow> payload \<Rightarrow> payload \<Rightarrow> error + bool" where
  "compare cond v1 v2 =
     (if cond = ''eq'' then Inr (py_eq v1 v2)
      else if cond = ''ne'' then Inr (\<not> py_eq v1 v2)
      else if cond = ''lt'' then py_lt v1 v2
      else if cond = ''le'' then py_le v1 v2
      else if cond = ''gt'' then py_lt v2 v1
      else if cond = ''ge'' then py_le v2 v1
      else Inl NotImplementedError)"

text \<open>Boolean to 0/1, a one-character string under a Char tag to its code point.\<close>

definition get_comparable_value :: "jvalue \<Rightarrow> error + payload" where
  "get_comparable_value val =
     (if vtype val = Boolean then Inr (PInt (if py_truthy (payload val) then 1 else 0))
      else if vtype val = CharT then
        (case payload val of
           PStr s \<Rightarrow> (if length s = 1 then Inr (PInt (int (of_char (hd s)))) else Inl TypeError)
         | p \<Rightarrow> Inr p)
      else Inr (payload val))"

definition branch :: "State \<Rightarrow> Frame \<Rightarrow> jvalue list \<Rightarrow> bool \<Rightarrow> int \<Rightarrow> result" where
  "branch st fr stk should_jump target =
     (if should_jump
      then Continue (set_top st (fr\<lparr>stack := stk, pc := (pc fr)\<lparr>offset := target\<rparr>\<rparr>))
      else Continue (set_top st (fr\<lparr>stack := stk, pc := pc_iadd (pc fr) 1\<rparr>)))"

text \<open>
  Python's binary operators on payloads. On numbers \<open>//\<close> and \<open>%\<close> are floor division
  and modulo, which on \<open>int\<close> are \<open>div\<close> and \<open>mod\<close>. On text \<open>+\<close> concatenates and \<open>*\<close>
  repeats; \<open>%\<close> with a text on the left is printf-style formatting, which raises TypeError
  when the text holds no conversion specifier and is not computed here otherwise. Every
  other combination raises TypeError.
\<close>

definition py_add :: "payload \<Rightarrow> payload \<Rightarrow> error + payload" where
  "py_add x y =
     (case (as_num x, as_num y) of
        (Some a, Some b) \<Rightarrow> Inr (PInt (a + b))
      | _ \<Rightarrow> (case (x, y) of (PStr s, PStr t) \<Rightarrow> Inr (PStr (s @ t)) | _ \<Rightarrow> Inl TypeError))"

definition py_sub :: "payload \<Rightarrow> payload \<Rightarrow> error + payload" where
  "py_sub x y =
     (case (as_num x, as_num y) of
        (Some a, Some b) \<Rightarrow> Inr (PInt (a - b))
      | _ \<Rightarrow> Inl TypeError)"

definition py_mul :: "payload \<Rightarrow> payload \<Rightarrow> error + payload" where
  "py_mul x y =
     (case (as_num x, as_num y) of
        (Some a, Some b) \<Rightarrow> Inr (PInt (a * b))
      | (Some a, None) \<Rightarrow>
          (case y of PStr t \<Rightarrow> Inr (PStr (concat (replicate (nat a) t))) | _ \<Rightarrow> Inl TypeError)
      | (None, Some b) \<Rightarrow>
          (case x of PStr s \<Rightarrow> Inr (PStr (concat (replicate (nat b) s))) | _ \<Rightarrow> Inl TypeError)
      | (None, None) \<Rightarrow> Inl TypeError)"

definition py_floordiv :: "payload \<Rightarrow> payload \<Rightarrow> error + payload" where
  "py_floordiv x y =
     (case (as_num x, as_num y) of
        (Some a, Some b) \<Rightarrow> (if b = 0 then Inl ZeroDivisionError else Inr (PInt (a div b)))
      | _ \<Rightarrow> Inl TypeError)"

definition py_mod :: "payload \<Rightarrow> payload \<Rightarrow> error + payload" where
  "py_mod x y =
     (case x of
        PStr s \<Rightarrow> (if CHR ''%'' \<in> set s then Inl FormatUnmodelled else Inl TypeError)
      | _ \<Rightarrow>
          (case (as_num x, as_num y) of
             (Some a, Some b) \<Rightarrow> (if b = 0 then Inl ZeroDivisionError else Inr (PInt (a mod b)))
           | _ \<Rightarrow> Inl TypeError))"

text \<open>\<open>frame.stack.push(jvm.Value.int(v1.value op v2.value))\<close>: an exception of the
  operator leaves \<open>step\<close>; its result is pushed under the Int tag.\<close>

definition arith ::
    "State \<Rightarrow> Frame \<Rightarrow> jvalue list \<Rightarrow> (payload \<Rightarrow> payload \<Rightarrow> error + payload)
       \<Rightarrow> jvalue \<Rightarrow> jvalue \<Rightarrow> result" where
  "arith st fr stk f v1 v2 =
     (case f (payload v1) (payload v2) of
        Inl e \<Rightarrow> Raise e
      | Inr p \<Rightarrow> push_next st fr stk (Value IntT p))"

definition binary_int ::
    "State \<Rightarrow> Frame \<Rightarrow> jvalue list \<Rightarrow> BinaryOpr \<Rightarrow> jvalue \<Rightarrow> jvalue \<Rightarrow> result" where
  "binary_int st fr stk op v1 v2 =
     (if vtype v1 \<noteq> IntT then Raise AssertionFailure
      else if vtype v2 \<noteq> IntT then Raise AssertionFailure
      else
        (case op of
           Div \<Rightarrow>
             if py_eq (payload v2) (PInt 0)
             then Outcome ''divide by zero'' (set_top st (fr\<lparr>stack := stk\<rparr>))
             else arith st fr stk py_floordiv v1 v2
         | Add \<Rightarrow> arith st fr stk py_add v1 v2
         | Sub \<Rightarrow> arith st fr stk py_sub v1 v2
         | Mul \<Rightarrow> arith st fr stk py_mul v1 v2
         | Rem \<Rightarrow>
             if py_eq (payload v2) (PInt 0)
             then Outcome ''divide by zero'' (set_top st (fr\<lparr>stack := stk\<rparr>))
             else arith st fr stk py_mod v1 v2
         | OtherOpr \<Rightarrow> Raise NotImplementedError))"

text \<open>\<open>for _ in range(param_count): args.insert(0, frame.stack.pop())\<close>\<close>

fun pop_args :: "nat \<Rightarrow> jvalue list \<Rightarrow> jvalue list \<Rightarrow> (jvalue list \<times> jvalue list) option" where
  "pop_args 0 args stk = Some (args, stk)"
| "pop_args (Suc n) args stk =
     (case pop stk of
        None \<Rightarrow> None
      | Some (v, stk') \<Rightarrow> pop_args n (v # args) stk')"

text \<open>What the three invoke instructions do with the emulation's answer.\<close>

definition invoke_result :: "State \<Rightarrow> Frame \<Rightarrow> jvalue list \<Rightarrow> error + inv_result \<Rightarrow> result" where
  "invoke_result st fr stk r =
     (case r of
        Inl e \<Rightarrow> Raise e
      | Inr (RStr s) \<Rightarrow> Outcome s (set_top st (fr\<lparr>stack := stk\<rparr>))
      | Inr (RValue v) \<Rightarrow> push_next st fr stk v
      | Inr RNone \<Rightarrow> Raise NotImplementedError)"

definition init_result ::
    "State \<Rightarrow> Frame \<Rightarrow> jvalue list \<Rightarrow> jvalue \<Rightarrow> error + inv_result \<Rightarrow> result" where
  "init_result st fr stk obj_ref r =
     (case r of
        Inl e \<Rightarrow> Raise e
      | Inr (RStr s) \<Rightarrow> Outcome s (set_top st (fr\<lparr>stack := stk\<rparr>))
      | Inr _ \<Rightarrow> push_next st fr stk obj_ref)"

text \<open>
  One branch of the \<open>match\<close> in \<open>step\<close> per equation; \<open>fr\<close> is \<open>state.frames.peek()\<close>.
  A \<open>Binary\<close> whose type is not Int, like any instruction without a case, reaches the
  last case of the \<open>match\<close>.
\<close>

fun exec :: "opcode \<Rightarrow> State \<Rightarrow> Frame \<Rightarrow> result" where
  "exec (Push v) st fr = push_next st fr (stack fr) v"
| "exec (Load t i) st fr =
     (case locals fr i of
        Some v \<Rightarrow> push_next st fr (stack fr) v
      | None \<Rightarrow>
          if t = IntT then push_next st fr (stack fr) (Value_int 0)
          else if t = Boolean then push_next st fr (stack fr) (Value_boolean False)
          else if t = Reference \<or> (case t of Object cn \<Rightarrow> True | _ \<Rightarrow> False)
          then push_next st fr (stack fr) (Value t PNone)
          else Raise NotImplementedError)"
| "exec (Store t i) st fr =
     (case pop (stack fr) of
        None \<Rightarrow> Raise IndexError
      | Some (v, stk) \<Rightarrow>
          Continue (set_top st
            (fr\<lparr>locals := (locals fr)(i \<mapsto> v), stack := stk, pc := pc_iadd (pc fr) 1\<rparr>)))"
| "exec (Binary t op) st fr =
     (if t = IntT then
        (case pop (stack fr) of
           None \<Rightarrow> Raise IndexError
         | Some (v2, stk2) \<Rightarrow>
             (case pop stk2 of
                None \<Rightarrow> Raise IndexError
              | Some (v1, stk1) \<Rightarrow> binary_int st fr stk1 op v1 v2))
      else Raise NotImplementedError)"
| "exec (Ifz cond target) st fr =
     (case pop (stack fr) of
        None \<Rightarrow> Raise IndexError
      | Some (v, stk) \<Rightarrow>
          (case get_comparable_value v of
             Inl e \<Rightarrow> Raise e
           | Inr int_val \<Rightarrow>
               (case compare cond int_val (PInt 0) of
                  Inl e \<Rightarrow> Raise e
                | Inr should_jump \<Rightarrow> branch st fr stk should_jump target)))"
| "exec (If_op cond target) st fr =
     (case pop (stack fr) of
        None \<Rightarrow> Raise IndexError
      | Some (value2, stk2) \<Rightarrow>
          (case pop stk2 of
             None \<Rightarrow> Raise IndexError
           | Some (value1, stk1) \<Rightarrow>
               (case get_comparable_value value1 of
                  Inl e \<Rightarrow> Raise e
                | Inr v1 \<Rightarrow>
                    (case get_comparable_value value2 of
                       Inl e \<Rightarrow> Raise e
                     | Inr v2 \<Rightarrow>
                         (case compare cond v1 v2 of
                            Inl e \<Rightarrow> Raise e
                          | Inr should_jump \<Rightarrow> branch st fr stk1 should_jump target)))))"
| "exec (Goto target) st fr =
     Continue (set_top st (fr\<lparr>pc := (pc fr)\<lparr>offset := target\<rparr>\<rparr>))"
| "exec (New cn) st fr =
     (if str_in ''AssertionError'' cn
      then push_next st fr (stack fr) (Value Reference (PStr ''AssertionError''))
      else push_next st fr (stack fr) (Value Reference (PStr (''Object:'' @ cn))))"
| "exec (Dup w) st fr =
     (if w = 1 then
        (if stack fr = [] then Raise RuntimeError
         else push_next st fr (stack fr) (last (stack fr)))
      else Raise NotImplementedError)"
| "exec (Get static f) st fr =
     (if static then
        (if field_name f = ''$assertionsDisabled''
         then push_next st fr (stack fr) (Value_boolean False)
         else Raise NotImplementedError)
      else
        (case pop (stack fr) of
           None \<Rightarrow> Raise IndexError
         | Some (obj_ref, stk) \<Rightarrow>
             if payload obj_ref = PNone
             then Outcome ''null pointer'' (set_top st (fr\<lparr>stack := stk\<rparr>))
             else Raise NotImplementedError))"
| "exec Throw st fr =
     (case pop (stack fr) of
        None \<Rightarrow> Raise IndexError
      | Some (exception_obj, stk) \<Rightarrow>
          if payload exception_obj = PNone
          then Outcome ''null pointer'' (set_top st (fr\<lparr>stack := stk\<rparr>))
          else if py_eq (payload exception_obj) (PStr ''AssertionError'')
                  \<or> str_in ''AssertionError'' (py_str (payload exception_obj))
          then Outcome ''assertion error'' (set_top st (fr\<lparr>stack := stk\<rparr>))
          else Outcome ''assertion error'' (set_top st (fr\<lparr>stack := stk\<rparr>)))"
| "exec (InvokeVirtual m) st fr =
     (case pop_args (length (params m)) [] (stack fr) of
        None \<Rightarrow> Raise IndexError
      | Some (args, stk) \<Rightarrow>
          (case pop stk of
             None \<Rightarrow> Raise IndexError
           | Some (obj_ref, stk') \<Rightarrow>
               if payload obj_ref = PNone
               then Outcome ''null pointer'' (set_top st (fr\<lparr>stack := stk'\<rparr>))
               else invoke_result st fr stk' (handle_method_invocation m (Some obj_ref) args)))"
| "exec (InvokeStatic m) st fr =
     (case pop_args (length (params m)) [] (stack fr) of
        None \<Rightarrow> Raise IndexError
      | Some (args, stk) \<Rightarrow> invoke_result st fr stk (handle_method_invocation m None args))"
| "exec (InvokeSpecial m) st fr =
     (case pop_args (length (params m)) [] (stack fr) of
        None \<Rightarrow> Raise IndexError
      | Some (args, stk) \<Rightarrow>
          (case pop stk of
             None \<Rightarrow> Raise IndexError
           | Some (obj_ref, stk') \<Rightarrow>
               if payload obj_ref = PNone
               then Outcome ''null pointer'' (set_top st (fr\<lparr>stack := stk'\<rparr>))
               else if name m = ''<init>''
               then init_result st fr stk' obj_ref (handle_method_invocation m (Some obj_ref) args)
               else invoke_result st fr stk' (handle_method_invocation m (Some obj_ref) args)))"
| "exec (Return None) st fr =
     (if butlast (frames st) \<noteq> []
      then
        (let caller = last (butlast (frames st))
         in Continue (st\<lparr>frames :=
              butlast (butlast (frames st)) @ [caller\<lparr>pc := pc_iadd (pc caller) 1\<rparr>]\<rparr>))
      else Outcome ''ok'' (st\<lparr>frames := butlast (frames st)\<rparr>))"
| "exec (Return (Some t)) st fr =
     (case pop (stack fr) of
        None \<Rightarrow> Raise IndexError
      | Some (v1, stk) \<Rightarrow>
          if butlast (frames st) \<noteq> []
          then
            (let caller = last (butlast (frames st))
             in Continue (st\<lparr>frames :=
                  butlast (butlast (frames st))
                    @ [caller\<lparr>stack := stack caller @ [v1], pc := pc_iadd (pc caller) 1\<rparr>]\<rparr>))
          else Outcome ''ok'' (st\<lparr>frames := butlast (frames st)\<rparr>))"
| "exec (Unsupported a) st fr = Raise NotImplementedError"

text \<open>\<open>step\<close>: peek the top frame, fetch the instruction at its pc, execute it.\<close>

definition step :: "Bytecode \<Rightarrow> State \<Rightarrow> result \<times> Bytecode" where
  "step bc st =
     (if frames st = [] then (Raise IndexError, bc)
      else
        (let fr = last (frames st)
         in case getitem bc (pc fr) of
              (Inl e, bc') \<Rightarrow> (Raise e, bc')
            | (Inr opr, bc') \<Rightarrow> (exec opr st fr, bc')))"

subsection \<open>The driver\<close>

text \<open>\<open>for i, v in enumerate(input.values): frame.locals[i] = v\<close>\<close>

definition seed_locals :: "jvalue list \<Rightarrow> Frame \<Rightarrow> Frame" where
  "seed_locals vs fr =
     fr\<lparr>locals := fold (\<lambda>(i, v) l. l(int i \<mapsto> v)) (enumerate 0 vs) (locals fr)\<rparr>"

definition initial_state :: "AbsMethodID \<Rightarrow> jvalue list \<Rightarrow> State" where
  "initial_state methodid vs =
     \<lparr>heap = Map.empty, frames = [] @ [seed_locals vs (from_method methodid)]\<rparr>"

definition initial_bc :: "(AbsMethodID \<Rightarrow> error + opcode list) \<Rightarrow> Bytecode" where
  "initial_bc s = \<lparr>suite = s, methods = Map.empty\<rparr>"

text \<open>
  The run loop: at most \<open>n\<close> calls of \<open>step\<close>. The result records what is printed, or the
  exception that ends the process, the number of calls made, and the State as the last
  call left it.
\<close>

datatype run =
    Printed string nat State
  | Aborted error nat

fun run_loop :: "nat \<Rightarrow> nat \<Rightarrow> Bytecode \<Rightarrow> State \<Rightarrow> run" where
  "run_loop 0 x bc st = Printed ''*'' x st"
| "run_loop (Suc n) x bc st =
     (case step bc st of
        (Continue st', bc') \<Rightarrow> run_loop n (Suc x) bc' st'
      | (Outcome s st', bc') \<Rightarrow> Printed s (Suc x) st'
      | (Raise e, bc') \<Rightarrow> Aborted e (Suc x))"

definition main :: "(AbsMethodID \<Rightarrow> error + opcode list) \<Rightarrow> AbsMethodID \<Rightarrow> jvalue list \<Rightarrow> run" where
  "main s methodid vs = run_loop 1000 0 (initial_bc s) (initial_state methodid vs)"

text \<open>The state after \<open>n\<close> calls of \<open>step\<close> that all returned the State.\<close>

fun steps :: "nat \<Rightarrow> Bytecode \<Rightarrow> State \<Rightarrow> (Bytecode \<times> State) option" where
  "steps 0 bc st = Some (bc, st)"
| "steps (Suc n) bc st =
     (case step bc st of
        (Continue st', bc') \<Rightarrow> steps n bc' st'
      | _ \<Rightarrow> None)"

subsection \<open>Example programs and the specification's quotient\<close>

text \<open>A method without parameters, a frame at its first instruction, and a code store
  whose loader answers every method with the given instruction sequence.\<close>

definition ex_m :: AbsMethodID where
  "ex_m = \<lparr>classname = ''Example'', name = ''run'', params = [], return_type = None\<rparr>"

definition ex_frame :: "jvalue list \<Rightarrow> Frame" where
  "ex_frame stk = \<lparr>locals = Map.empty, stack = stk, pc = \<lparr>method = ex_m, offset = 0\<rparr>\<rparr>"

definition ex_state :: "jvalue list \<Rightarrow> State" where
  "ex_state stk = \<lparr>heap = Map.empty, frames = [ex_frame stk]\<rparr>"

definition ex_bc :: "opcode list \<Rightarrow> Bytecode" where
  "ex_bc ops = initial_bc (\<lambda>m. Inr ops)"

text \<open>Two method references: the constructor of \<open>java/lang/Object\<close>, which every
  \<open>new\<close> expression of a class without a superclass invokes, and \<open>String.length\<close>.\<close>

definition ex_object_init :: AbsMethodID where
  "ex_object_init =
     \<lparr>classname = ''java/lang/Object'', name = ''<init>'', params = [], return_type = None\<rparr>"

definition ex_string_length :: AbsMethodID where
  "ex_string_length =
     \<lparr>classname = ''java/lang/String'', name = ''length'', params = [], return_type = Some IntT\<rparr>"

text \<open>The quotient that truncates toward zero, in the words of the specification
  (the JVM's \<open>idiv\<close>); \<open>binary_int\<close> above is what the source computes.\<close>

definition trunc_div :: "int \<Rightarrow> int \<Rightarrow> int" where
  "trunc_div a b = (if (a < 0) = (b < 0) then \<bar>a\<bar> div \<bar>b\<bar> else - (\<bar>a\<bar> div \<bar>b\<bar>))"

section \<open>Properties\<close>

subsection \<open>Stack and fetch lemmas\<close>

lemma pop_snoc [simp]: "pop (xs @ [x]) = Some (x, xs)"
  by (simp add: pop_def)

lemma pop_Nil [simp]: "pop [] = None"
  by (simp add: pop_def)

lemma pop_snoc2 [simp]: "pop (xs @ [x, y]) = Some (y, xs @ [x])"
  by (simp add: pop_def butlast_append)

lemma step_exec:
  "frames st = fs @ [fr] \<Longrightarrow> getitem bc (pc fr) = (Inr opr, bc') \<Longrightarrow>
   step bc st = (exec opr st fr, bc')"
  by (simp add: step_def)

lemma set_top_snoc: "frames st = fs @ [fr] \<Longrightarrow> set_top st fr' = st\<lparr>frames := fs @ [fr']\<rparr>"
  by (simp add: set_top_def)

lemma getitem_ex:
  "getitem (ex_bc (opr # ops)) (pc (ex_frame stk)) =
     (Inr opr, (ex_bc (opr # ops))\<lparr>methods := [ex_m \<mapsto> opr # ops]\<rparr>)"
  by (simp add: getitem_def ex_bc_def initial_bc_def ex_frame_def py_getitem_def)

lemma step_ex:
  "step (ex_bc (opr # ops)) (ex_state stk) =
     (exec opr (ex_state stk) (ex_frame stk),
      (ex_bc (opr # ops))\<lparr>methods := [ex_m \<mapsto> opr # ops]\<rparr>)"
  by (rule step_exec [of _ "[]"]) (simp_all add: ex_state_def getitem_ex)

subsection \<open>Integer division\<close>

text \<open>What the source pushes for a divisor that is not zero: the floor quotient and the
  modulo, which do satisfy the division identity.\<close>

lemma div_rem_pushed:
  assumes "b \<noteq> 0"
  shows "binary_int st fr stk Div (Value_int a) (Value_int b) =
           push_next st fr stk (Value_int (a div b))"
    and "binary_int st fr stk Rem (Value_int a) (Value_int b) =
           push_next st fr stk (Value_int (a mod b))"
    and "(a div b) * b + a mod b = a"
  using assms by (simp_all add: binary_int_def arith_def Value_int_def py_floordiv_def py_mod_def)

text \<open>
  C1. The specification asks for a quotient that truncates toward zero. The source
  divides with Python's \<open>//\<close>, which rounds toward minus infinity: on the operand stack
  \<open>[-7, 2]\<close> the instruction \<open>Binary Int Div\<close> pushes \<open>-4\<close>, where truncation gives \<open>-3\<close>.
\<close>

theorem div_floors_not_truncates:
  "fst (step (ex_bc [Binary IntT Div]) (ex_state [Value_int (- 7), Value_int 2])) =
     Continue \<lparr>heap = Map.empty, frames =
       [\<lparr>locals = Map.empty, stack = [Value_int (- 4)],
         pc = \<lparr>method = ex_m, offset = 1\<rparr>\<rparr>]\<rparr>
   \<and> trunc_div (- 7) 2 = - 3"
  unfolding step_ex
  by (simp add: ex_state_def ex_frame_def binary_int_def arith_def py_floordiv_def
      Value_int_def push_next_def set_top_def pc_iadd_def trunc_div_def pop_def)

text \<open>
  C2. When the instruction at the top frame's pc is the Int division or remainder and
  the operand stack ends with an Integer \<open>a\<close> below the Integer \<open>0\<close>, \<open>step\<close> returns the
  outcome "divide by zero"; the State it leaves has both operands popped and nothing
  pushed.
\<close>

theorem div_rem_by_zero:
  assumes "frames st = fs @ [fr]"
    and "getitem bc (pc fr) = (Inr (Binary IntT op), bc')"
    and "op = Div \<or> op = Rem"
    and "stack fr = stk @ [Value_int a, Value_int 0]"
  shows "step bc st = (Outcome ''divide by zero'' (st\<lparr>frames := fs @ [fr\<lparr>stack := stk\<rparr>]\<rparr>), bc')"
proof -
  have "exec (Binary IntT op) st fr = binary_int st fr stk op (Value_int a) (Value_int 0)"
    using assms(4) by simp
  also have "\<dots> = Outcome ''divide by zero'' (set_top st (fr\<lparr>stack := stk\<rparr>))"
    using assms(3) by (auto simp: binary_int_def Value_int_def)
  finally show ?thesis
    using assms(1,2) by (simp add: step_exec set_top_snoc)
qed

theorem div_rem_by_zero_witness:
  "step (ex_bc [Binary IntT Rem]) (ex_state [Value_int 5, Value_int 0]) =
     (Outcome ''divide by zero'' (ex_state []),
      (ex_bc [Binary IntT Rem])\<lparr>methods := [ex_m \<mapsto> [Binary IntT Rem]]\<rparr>)"
  using div_rem_by_zero [of "ex_state [Value_int 5, Value_int 0]" "[]"
      "ex_frame [Value_int 5, Value_int 0]" "ex_bc [Binary IntT Rem]" Rem _ "[]" 5]
    getitem_ex [of "Binary IntT Rem" "[]" "[Value_int 5, Value_int 0]"]
  by (simp add: ex_state_def ex_frame_def)

subsection \<open>Substring\<close>

text \<open>
  C3. For a receiver whose payload is the text \<open>s\<close> and two Integer arguments \<open>b\<close> and
  \<open>e\<close>, the substring emulation answers "out of bounds" exactly when \<open>b < 0\<close> or
  \<open>e > length s\<close> or \<open>b > e\<close>, and otherwise a Reference whose payload is the \<open>e - b\<close>
  characters of \<open>s\<close> that start at position \<open>b\<close>.
\<close>

theorem substring2_bounds:
  "handle_string_method ''substring'' (Some (Value t (PStr s))) [Value_int b, Value_int e] rt =
     Inr (if b < 0 \<or> e > int (length s) \<or> b > e then RStr ''out of bounds''
          else RValue (Value Reference (PStr (take (nat (e - b)) (drop (nat b) s)))))"
  by (auto simp: handle_string_method_def is_str_def string_method_def substring2_def
      Value_int_def py_slice_def slice_bound_def Let_def min_def nat_diff_distrib)

theorem substring2_bounds_witness:
  "handle_string_method ''substring'' (Some (Value Reference (PStr ''hello'')))
       [Value_int 1, Value_int 3] None = Inr (RValue (Value Reference (PStr ''el'')))
   \<and> handle_string_method ''substring'' (Some (Value Reference (PStr ''hello'')))
       [Value_int 3, Value_int 6] None = Inr (RStr ''out of bounds'')"
  using substring2_bounds [of Reference "''hello''" 1 3 None]
    substring2_bounds [of Reference "''hello''" 3 6 None]
  by simp

subsection \<open>Throw\<close>

text \<open>
  C4. When the instruction at the top frame's pc is \<open>Throw\<close> and the operand stack is
  not empty, \<open>step\<close> pops the exception Reference and returns "null pointer" if its
  payload is null, and "assertion error" for every other payload, the assertion-error
  marker or not.
\<close>

theorem throw_outcome:
  assumes "frames st = fs @ [fr]"
    and "getitem bc (pc fr) = (Inr Throw, bc')"
    and "stack fr = stk @ [exception_obj]"
  shows "step bc st =
     (Outcome (if payload exception_obj = PNone then ''null pointer'' else ''assertion error'')
        (st\<lparr>frames := fs @ [fr\<lparr>stack := stk\<rparr>]\<rparr>), bc')"
  using assms by (simp add: step_exec set_top_snoc)

theorem throw_outcome_witness:
  "step (ex_bc [Throw]) (ex_state [Value Reference PNone]) =
     (Outcome ''null pointer'' (ex_state []), (ex_bc [Throw])\<lparr>methods := [ex_m \<mapsto> [Throw]]\<rparr>)
   \<and> step (ex_bc [Throw]) (ex_state [Value Reference (PStr ''Object:java/lang/Exception'')]) =
     (Outcome ''assertion error'' (ex_state []), (ex_bc [Throw])\<lparr>methods := [ex_m \<mapsto> [Throw]]\<rparr>)"
  using throw_outcome [of "ex_state [Value Reference PNone]" "[]"
      "ex_frame [Value Reference PNone]" "ex_bc [Throw]" _ "[]" "Value Reference PNone"]
    throw_outcome [of "ex_state [Value Reference (PStr ''Object:java/lang/Exception'')]" "[]"
      "ex_frame [Value Reference (PStr ''Object:java/lang/Exception'')]" "ex_bc [Throw]" _ "[]"
      "Value Reference (PStr ''Object:java/lang/Exception'')"]
    getitem_ex [of Throw "[]"]
  by (simp add: ex_state_def ex_frame_def)

subsection \<open>Loading an unset local\<close>

text \<open>
  C5. When the instruction at the top frame's pc is \<open>Load t i\<close>, slot \<open>i\<close> has not been
  written and \<open>t\<close> is Int, Boolean or Reference, \<open>step\<close> returns the State (it does not
  raise) with \<open>0\<close>, \<open>false\<close> or \<open>null\<close> of that type pushed and the pc advanced by one.
\<close>

theorem load_unset_default:
  assumes "frames st = fs @ [fr]"
    and "getitem bc (pc fr) = (Inr (Load t i), bc')"
    and "locals fr i = None"
    and "t = IntT \<or> t = Boolean \<or> t = Reference"
  shows "step bc st =
     (Continue (st\<lparr>frames := fs @
        [fr\<lparr>stack := stack fr @
               [if t = IntT then Value IntT (PInt 0)
                else if t = Boolean then Value Boolean (PBool False)
                else Value Reference PNone],
            pc := (pc fr)\<lparr>offset := offset (pc fr) + 1\<rparr>\<rparr>]\<rparr>), bc')"
  using assms
  by (auto simp: step_exec set_top_snoc push_next_def pc_iadd_def Value_int_def Value_boolean_def)

theorem load_unset_default_witness:
  "fst (step (ex_bc [Load Reference 3]) (ex_state [])) =
     Continue \<lparr>heap = Map.empty, frames =
       [\<lparr>locals = Map.empty, stack = [Value Reference PNone],
         pc = \<lparr>method = ex_m, offset = 1\<rparr>\<rparr>]\<rparr>"
  using load_unset_default [of "ex_state []" "[]" "ex_frame []" "ex_bc [Load Reference 3]"
      Reference 3]
    getitem_ex [of "Load Reference 3" "[]" "[]"]
  by (simp add: ex_state_def ex_frame_def)

subsection \<open>The code store\<close>

text \<open>
  C6, as stated, fails: the lookup indexes the instruction list as Python does, so the
  offset \<open>-1\<close>, which is outside the range of a two-instruction method, returns the last
  instruction.
\<close>

theorem getitem_negative_offset_counterexample:
  "fst (getitem (ex_bc [Push (Value_int 1), Return None]) \<lparr>method = ex_m, offset = - 1\<rparr>) =
     Inr (Return None)"
  by (simp add: getitem_def ex_bc_def initial_bc_def py_getitem_def)

text \<open>
  C6, amended. For a method whose instruction sequence has \<open>n\<close> instructions (cached, or
  loaded at this lookup), the lookup at an offset that is at least \<open>n\<close> or below \<open>-n\<close>
  fails with an internal error (IndexError) and returns no instruction.
\<close>

theorem getitem_out_of_range:
  assumes "methods bc (method p) = Some opcodes
           \<or> (methods bc (method p) = None \<and> suite bc (method p) = Inr opcodes)"
    and "offset p \<ge> int (length opcodes) \<or> offset p < - int (length opcodes)"
  shows "fst (getitem bc p) = Inl IndexError"
  using assms by (auto simp: getitem_def py_getitem_def Let_def)

theorem getitem_out_of_range_witness:
  "fst (getitem (ex_bc [Return None]) \<lparr>method = ex_m, offset = 1\<rparr>) = Inl IndexError
   \<and> fst (getitem (ex_bc [Return None]) \<lparr>method = ex_m, offset = - 2\<rparr>) = Inl IndexError"
  using getitem_out_of_range [of "ex_bc [Return None]" "\<lparr>method = ex_m, offset = 1\<rparr>" "[Return None]"]
    getitem_out_of_range [of "ex_bc [Return None]" "\<lparr>method = ex_m, offset = - 2\<rparr>" "[Return None]"]
  by (simp add: ex_bc_def initial_bc_def)

subsection \<open>What a step does to the call stack and the heap\<close>

lemma length_pop2_le: "xs \<noteq> [] \<Longrightarrow> Suc (length xs - Suc (Suc 0)) \<le> length xs"
  by (cases xs) auto

lemma length_le_one: "length xs \<le> 1 \<Longrightarrow> xs \<noteq> [] \<Longrightarrow> length xs = 1"
  by (cases xs) auto

lemma binary_int_effect:
  "(binary_int st fr stk op v1 v2 = Continue st' \<longrightarrow>
      (\<exists>v. st' = set_top st (fr\<lparr>stack := stk @ [v], pc := pc_iadd (pc fr) 1\<rparr>)))
   \<and> (binary_int st fr stk op v1 v2 = Outcome s st' \<longrightarrow> st' = set_top st (fr\<lparr>stack := stk\<rparr>))"
  by (cases op) (auto simp: binary_int_def arith_def push_next_def split: sum.splits)

lemma exec_effect:
  assumes "frames st \<noteq> []"
  shows "(exec opr st fr = Continue st' \<longrightarrow>
            heap st' = heap st \<and> frames st' \<noteq> [] \<and> length (frames st') \<le> length (frames st))
       \<and> (exec opr st fr = Outcome s st' \<longrightarrow>
            heap st' = heap st \<and> length (frames st') \<le> length (frames st))"
proof (cases opr)
  case (Return t)
  with assms show ?thesis
    by (cases t) (auto simp: Let_def length_pop2_le split: option.splits if_splits)
next
  case (Binary t op)
  show ?thesis
  proof (cases "t = IntT \<and> (\<exists>v2 stk2 v1 stk1. pop (stack fr) = Some (v2, stk2)
                  \<and> pop stk2 = Some (v1, stk1))")
    case True
    then obtain v2 stk2 v1 stk1 where
      "exec opr st fr = binary_int st fr stk1 op v1 v2"
      using Binary by auto
    with assms binary_int_effect [of st fr stk1 op v1 v2 st' s] show ?thesis
      by (auto simp: set_top_def)
  next
    case False
    with Binary show ?thesis
      by (auto split: option.splits)
  qed
qed (insert assms, auto simp: push_next_def branch_def invoke_result_def init_result_def
      set_top_def
      split: option.splits sum.splits inv_result.splits if_splits)

lemma step_effect:
  "(step bc st = (Continue st', bc') \<longrightarrow>
      heap st' = heap st \<and> frames st' \<noteq> [] \<and> length (frames st') \<le> length (frames st))
   \<and> (step bc st = (Outcome s st', bc') \<longrightarrow>
        heap st' = heap st \<and> length (frames st') \<le> length (frames st))"
proof (cases "frames st = []")
  case True
  then show ?thesis by (simp add: step_def)
next
  case False
  show ?thesis
  proof (cases "getitem bc (pc (last (frames st)))")
    case (Pair r b)
    show ?thesis
    proof (cases r)
      case (Inl e)
      with Pair False show ?thesis by (simp add: step_def)
    next
      case (Inr opr)
      with Pair False exec_effect [OF False, of opr "last (frames st)" st' s]
      show ?thesis by (simp add: step_def)
    qed
  qed
qed


lemma steps_invariant:
  "steps n bc st = Some (bc', st') \<Longrightarrow> length (frames st) = 1 \<Longrightarrow>
   length (frames st') = 1 \<and> heap st' = heap st"
proof (induction n arbitrary: bc st)
  case 0
  then show ?case by simp
next
  case (Suc n)
  from Suc.prems(1) obtain st1 bc1 where
    s1: "step bc st = (Continue st1, bc1)" and rest: "steps n bc1 st1 = Some (bc', st')"
    by (auto split: prod.splits result.splits)
  from s1 step_effect [of bc st st1 bc1] have
    h: "heap st1 = heap st" and ne: "frames st1 \<noteq> []" and le: "length (frames st1) \<le> length (frames st)"
    by simp_all
  from le Suc.prems(2) ne have "length (frames st1) = 1"
    by (simp add: length_le_one)
  with Suc.IH [OF rest] h show ?case by simp
qed

lemma initial_state_frames: "length (frames (initial_state m vs)) = 1"
  by (simp add: initial_state_def)

text \<open>
  C10. A call of \<open>step\<close> that returns the State or an outcome leaves the heap as it
  found it, and the heap is empty in every State that the run reaches from the initial
  State.
\<close>

theorem heap_unchanged:
  "(step bc1 st1 = (Continue st1', bc1') \<or> step bc1 st1 = (Outcome out st1', bc1')
      \<longrightarrow> heap st1' = heap st1)
   \<and> (steps n (initial_bc s) (initial_state m vs) = Some (bc, st) \<longrightarrow> heap st = Map.empty)"
proof -
  have "heap (initial_state m vs) = Map.empty"
    by (simp add: initial_state_def)
  with steps_invariant [of n "initial_bc s" "initial_state m vs" bc st]
    step_effect [of bc1 st1 st1' bc1' out]
  show ?thesis by (auto simp: initial_state_frames)
qed


lemma initial_state_ex: "initial_state ex_m [] = ex_state []"
  by (simp add: initial_state_def seed_locals_def from_method_def ex_state_def ex_frame_def)

lemma step_ex_push:
  "step (ex_bc [Push v]) (ex_state []) =
     (Continue \<lparr>heap = Map.empty, frames =
        [\<lparr>locals = Map.empty, stack = [v], pc = \<lparr>method = ex_m, offset = 1\<rparr>\<rparr>]\<rparr>,
      (ex_bc [Push v])\<lparr>methods := [ex_m \<mapsto> [Push v]]\<rparr>)"
  unfolding step_ex
  by (simp add: push_next_def set_top_def pc_iadd_def ex_state_def ex_frame_def)

theorem heap_unchanged_witness:
  "steps (Suc 0) (initial_bc (\<lambda>m. Inr [Push (Value_int 2)])) (initial_state ex_m []) =
     Some ((ex_bc [Push (Value_int 2)])\<lparr>methods := [ex_m \<mapsto> [Push (Value_int 2)]]\<rparr>,
       \<lparr>heap = Map.empty, frames =
         [\<lparr>locals = Map.empty, stack = [Value_int 2], pc = \<lparr>method = ex_m, offset = 1\<rparr>\<rparr>]\<rparr>)
   \<and> heap \<lparr>heap = Map.empty, frames =
         [\<lparr>locals = Map.empty, stack = [Value_int 2],
           pc = \<lparr>method = ex_m, offset = 1\<rparr>\<rparr>]\<rparr> = Map.empty
   \<and> heap \<lparr>heap = Map.empty, frames =
         [\<lparr>locals = Map.empty, stack = [Value_int 2],
           pc = \<lparr>method = ex_m, offset = 1\<rparr>\<rparr>]\<rparr> = heap (ex_state [])"
proof -
  let ?P = "[Push (Value_int 2)]"
  let ?B = "(ex_bc ?P)\<lparr>methods := [ex_m \<mapsto> ?P]\<rparr>"
  let ?S = "\<lparr>heap = Map.empty, frames =
         [\<lparr>locals = Map.empty, stack = [Value_int 2], pc = \<lparr>method = ex_m, offset = 1\<rparr>\<rparr>]\<rparr>"
  have s: "step (ex_bc ?P) (ex_state []) = (Continue ?S, ?B)"
    by (rule step_ex_push)
  then have h: "steps (Suc 0) (initial_bc (\<lambda>m. Inr ?P)) (initial_state ex_m []) = Some (?B, ?S)"
    by (simp add: initial_state_ex ex_bc_def)
  from heap_unchanged [of "ex_bc ?P" "ex_state []" ?S ?B _ "Suc 0" "\<lambda>m. Inr ?P" ex_m "[]" ?B ?S]
    h s
  show ?thesis by simp
qed

subsection \<open>Invocations and the call stack\<close>

lemma ex_object_init_fields:
  "name ex_object_init = ''<init>''" "params ex_object_init = []"
  by (simp_all add: ex_object_init_def)

lemma ex_string_length_fields:
  "name ex_string_length = ''length''" "params ex_string_length = []"
  by (simp_all add: ex_string_length_def)

lemma object_init_unhandled:
  "handle_method_invocation ex_object_init obj args = Inr RNone"
  by (simp add: handle_method_invocation_def ex_object_init_def str_in_def starts_with_def
      ends_with_def)

lemma string_length_handled:
  "handle_method_invocation ex_string_length (Some (Value Reference (PStr ''abc''))) [] =
     Inr (RValue (Value_int 3))"
  by (simp add: handle_method_invocation_def ex_string_length_def str_in_def starts_with_def
      ends_with_def handle_string_method_def is_str_def string_method_def)

lemma step_ex_string_length:
  "step (ex_bc [InvokeVirtual ex_string_length]) (ex_state [Value Reference (PStr ''abc'')]) =
     (Continue \<lparr>heap = Map.empty, frames =
        [\<lparr>locals = Map.empty, stack = [Value_int 3], pc = \<lparr>method = ex_m, offset = 1\<rparr>\<rparr>]\<rparr>,
      (ex_bc [InvokeVirtual ex_string_length])
        \<lparr>methods := [ex_m \<mapsto> [InvokeVirtual ex_string_length]]\<rparr>)"
  unfolding step_ex
  by (simp add: string_length_handled ex_string_length_fields invoke_result_def push_next_def
      set_top_def pc_iadd_def ex_state_def ex_frame_def pop_def)

text \<open>The argument loop takes the top \<open>n\<close> values off the stack and keeps their order.\<close>

lemma pop_args_append:
  "length args = n \<Longrightarrow> pop_args n acc (stk @ args) = Some (args @ acc, stk)"
proof (induction args arbitrary: n acc rule: rev_induct)
  case Nil
  then show ?case by simp
next
  case (snoc x xs)
  then obtain k where n: "n = Suc k" and k: "length xs = k"
    by (cases n) auto
  have "pop (stk @ xs @ [x]) = Some (x, stk @ xs)"
    using pop_snoc [of "stk @ xs" x] by simp
  with snoc.IH [OF k, of "x # acc"] n show ?case by simp
qed

text \<open>An invocation other than a constructor call returns the State only with a Value
  from the emulation.\<close>

lemma invoke_continue_resolved:
  assumes "opr = InvokeVirtual m \<or> opr = InvokeStatic m
           \<or> (opr = InvokeSpecial m \<and> name m \<noteq> ''<init>'')"
    and "exec opr st fr = Continue st'"
  shows "\<exists>obj args stk v. handle_method_invocation m obj args = Inr (RValue v)
           \<and> st' = set_top st (fr\<lparr>stack := stk @ [v], pc := pc_iadd (pc fr) 1\<rparr>)"
  using assms
  by (auto simp: invoke_result_def push_next_def
      split: option.splits sum.splits inv_result.splits if_splits; blast)

text \<open>A constructor call pushes the receiver back whenever the emulation reports no fault.\<close>

lemma invoke_special_init:
  assumes "name m = ''<init>''"
    and "stack fr = stk @ obj # args"
    and "length args = length (params m)"
    and "payload obj \<noteq> PNone"
    and "handle_method_invocation m (Some obj) args = Inr r"
    and "r = RNone \<or> r = RValue v"
  shows "exec (InvokeSpecial m) st fr =
     Continue (set_top st (fr\<lparr>stack := stk @ [obj], pc := pc_iadd (pc fr) 1\<rparr>))"
proof -
  have "pop_args (length (params m)) [] (stack fr) = Some (args, stk @ [obj])"
    using pop_args_append [of args "length (params m)" "[]" "stk @ [obj]"] assms(2,3) by simp
  with assms(1,4,5,6) show ?thesis
    by (auto simp: init_result_def push_next_def)
qed




subsection \<open>The driver on a branch to itself\<close>

lemma getitem_goto_self:
  assumes "methods bc m = Some [Goto 0] \<or> (methods bc m = None \<and> suite bc m = Inr [Goto 0])"
  shows "\<exists>bc'. getitem bc \<lparr>method = m, offset = 0\<rparr> = (Inr (Goto 0), bc')
            \<and> methods bc' m = Some [Goto 0]"
  using assms by (auto simp: getitem_def py_getitem_def)

lemma run_loop_goto_self:
  assumes "frames st = [fr]" and "pc fr = \<lparr>method = m, offset = 0\<rparr>"
  shows "methods bc m = Some [Goto 0] \<or> (methods bc m = None \<and> suite bc m = Inr [Goto 0]) \<Longrightarrow>
         run_loop n x bc st = Printed ''*'' (x + n) st"
proof (induction n arbitrary: x bc)
  case 0
  show ?case by simp
next
  case (Suc n)
  from getitem_goto_self [OF Suc.prems] obtain bc' where
    g: "getitem bc \<lparr>method = m, offset = 0\<rparr> = (Inr (Goto 0), bc')"
    and c: "methods bc' m = Some [Goto 0]"
    by blast
  have "(pc fr)\<lparr>offset := 0\<rparr> = pc fr"
    using assms(2) by simp
  then have "fr\<lparr>pc := (pc fr)\<lparr>offset := 0\<rparr>\<rparr> = fr"
    by simp
  moreover have "set_top st fr = st"
    using assms(1) by (simp add: set_top_def)
  ultimately have "exec (Goto 0) st fr = Continue st"
    by simp
  with g assms step_exec [of st "[]" fr bc "Goto 0" bc']
  have "step bc st = (Continue st, bc')"
    by simp
  moreover from c have "run_loop n (Suc x) bc' st = Printed ''*'' (Suc x + n) st"
    by (rule Suc.IH [OF disjI1])
  ultimately show ?case by simp
qed

text \<open>
  C7. When the entry method's body is the single instruction \<open>Goto 0\<close>, the driver
  calls \<open>step\<close> exactly 1000 times, every call returns the unchanged State, and the
  driver prints the divergence marker \<open>*\<close>.
\<close>

theorem goto_self_diverges:
  assumes "s m = Inr [Goto 0]"
  shows "main s m vs = Printed ''*'' 1000 (initial_state m vs)"
proof -
  have "run_loop 1000 0 (initial_bc s) (initial_state m vs) =
          Printed ''*'' (0 + 1000) (initial_state m vs)"
    using assms
    by (intro run_loop_goto_self [of _ "seed_locals vs (from_method m)"])
      (simp_all add: initial_state_def seed_locals_def from_method_def initial_bc_def)
  then show ?thesis by (simp add: main_def)
qed

theorem goto_self_diverges_witness:
  "main (\<lambda>m. Inr [Goto 0]) ex_m [Value_int 7] = Printed ''*'' 1000 (initial_state ex_m [Value_int 7])"
  using goto_self_diverges [of "\<lambda>m. Inr [Goto 0]" ex_m "[Value_int 7]"]
  by simp


subsection \<open>Return\<close>

lemma return_last_frame:
  assumes "frames st = [fr]"
    and "getitem bc (pc fr) = (Inr (Return t), bc')"
    and "t = None \<or> stack fr \<noteq> []"
  shows "step bc st = (Outcome ''ok'' (st\<lparr>frames := []\<rparr>), bc')"
proof -
  have "exec (Return t) st fr = Outcome ''ok'' (st\<lparr>frames := []\<rparr>)"
    using assms(1,3) by (cases t) (auto simp: pop_def)
  with step_exec [of st "[]" fr bc "Return t" bc'] assms(1,2) show ?thesis
    by simp
qed

lemma return_void_to_caller:
  assumes "frames st = fs @ [caller, fr]"
    and "getitem bc (pc fr) = (Inr (Return None), bc')"
  shows "step bc st =
     (Continue (st\<lparr>frames := fs @
        [caller\<lparr>pc := (pc caller)\<lparr>offset := offset (pc caller) + 1\<rparr>\<rparr>]\<rparr>), bc')"
proof -
  have "butlast (frames st) = fs @ [caller]"
    using assms(1) by (simp add: butlast_append)
  then have "exec (Return None) st fr =
     Continue (st\<lparr>frames := fs @
        [caller\<lparr>pc := (pc caller)\<lparr>offset := offset (pc caller) + 1\<rparr>\<rparr>]\<rparr>)"
    by (simp add: Let_def pc_iadd_def)
  with step_exec [of st "fs @ [caller]" fr bc "Return None" bc'] assms show ?thesis
    by simp
qed

lemma return_value_to_caller:
  assumes "frames st = fs @ [caller, fr]"
    and "getitem bc (pc fr) = (Inr (Return (Some t)), bc')"
    and "stack fr = stk @ [v]"
  shows "step bc st =
     (Continue (st\<lparr>frames := fs @
        [caller\<lparr>stack := stack caller @ [v],
                pc := (pc caller)\<lparr>offset := offset (pc caller) + 1\<rparr>\<rparr>]\<rparr>), bc')"
proof -
  have "butlast (frames st) = fs @ [caller]"
    using assms(1) by (simp add: butlast_append)
  then have "exec (Return (Some t)) st fr =
     Continue (st\<lparr>frames := fs @
        [caller\<lparr>stack := stack caller @ [v],
                pc := (pc caller)\<lparr>offset := offset (pc caller) + 1\<rparr>\<rparr>]\<rparr>)"
    using assms(3) by (simp add: Let_def pc_iadd_def)
  with step_exec [of st "fs @ [caller]" fr bc "Return (Some t)" bc'] assms show ?thesis
    by simp
qed

lemma run_loop_outcome:
  "step bc st = (Outcome out st', bc') \<Longrightarrow> 0 < n \<Longrightarrow>
   run_loop n x bc st = Printed out (Suc x) st'"
  by (cases n) simp_all

lemma main_return_immediately:
  assumes "s m = Inr (Return None # rest)"
  shows "main s m vs = Printed ''ok'' 1 ((initial_state m vs)\<lparr>frames := []\<rparr>)"
proof -
  let ?fr = "seed_locals vs (from_method m)"
  have "getitem (initial_bc s) (pc ?fr) =
          (Inr (Return None), (initial_bc s)\<lparr>methods := [m \<mapsto> Return None # rest]\<rparr>)"
    using assms
    by (simp add: getitem_def initial_bc_def seed_locals_def from_method_def py_getitem_def)
  then have "step (initial_bc s) (initial_state m vs) =
          (Outcome ''ok'' ((initial_state m vs)\<lparr>frames := []\<rparr>),
           (initial_bc s)\<lparr>methods := [m \<mapsto> Return None # rest]\<rparr>)"
    by (intro return_last_frame [of _ ?fr _ None]) (simp_all add: initial_state_def)
  then have "run_loop 1000 0 (initial_bc s) (initial_state m vs) =
          Printed ''ok'' (Suc 0) ((initial_state m vs)\<lparr>frames := []\<rparr>)"
    by (rule run_loop_outcome) simp
  then show ?thesis by (simp add: main_def)
qed

text \<open>
  C8. A run whose entry method starts with a return without value prints "ok" after one
  call of \<open>step\<close> and leaves the call stack empty. In general a return executed in the
  only frame gives the outcome "ok" with the call stack empty; with a caller below, the
  frame is popped, the returned value (when there is one) is pushed on the caller's
  operand stack, and the caller's pc advances by one.
\<close>

theorem return_semantics:
  "(s m = Inr (Return None # rest) \<longrightarrow>
      main s m vs = Printed ''ok'' 1 ((initial_state m vs)\<lparr>frames := []\<rparr>))
   \<and> (frames st1 = [fr1] \<and> getitem bc1 (pc fr1) = (Inr (Return t1), bc1')
        \<and> (t1 = None \<or> stack fr1 \<noteq> []) \<longrightarrow>
      step bc1 st1 = (Outcome ''ok'' (st1\<lparr>frames := []\<rparr>), bc1'))
   \<and> (frames st2 = fs2 @ [caller2, fr2] \<and> getitem bc2 (pc fr2) = (Inr (Return None), bc2') \<longrightarrow>
      step bc2 st2 =
        (Continue (st2\<lparr>frames := fs2 @
           [caller2\<lparr>pc := (pc caller2)\<lparr>offset := offset (pc caller2) + 1\<rparr>\<rparr>]\<rparr>), bc2'))
   \<and> (frames st3 = fs3 @ [caller3, fr3] \<and> getitem bc3 (pc fr3) = (Inr (Return (Some t3)), bc3')
        \<and> stack fr3 = stk3 @ [v] \<longrightarrow>
      step bc3 st3 =
        (Continue (st3\<lparr>frames := fs3 @
           [caller3\<lparr>stack := stack caller3 @ [v],
                    pc := (pc caller3)\<lparr>offset := offset (pc caller3) + 1\<rparr>\<rparr>]\<rparr>), bc3'))"
  using main_return_immediately [of s m rest vs]
    return_last_frame [of st1 fr1 bc1 t1 bc1']
    return_void_to_caller [of st2 fs2 caller2 fr2 bc2 bc2']
    return_value_to_caller [of st3 fs3 caller3 fr3 bc3 t3 bc3' stk3 v]
  by blast


theorem return_semantics_witness:
  "main (\<lambda>m. Inr [Return None]) ex_m [] = Printed ''ok'' 1 ((initial_state ex_m [])\<lparr>frames := []\<rparr>)
   \<and> fst (step (ex_bc [Return (Some IntT)]) (ex_state [Value_int 7])) =
        Outcome ''ok'' ((ex_state [Value_int 7])\<lparr>frames := []\<rparr>)
   \<and> fst (step (ex_bc [Return None])
        \<lparr>heap = Map.empty, frames = [ex_frame [], ex_frame []]\<rparr>) =
        Continue \<lparr>heap = Map.empty, frames =
          [\<lparr>locals = Map.empty, stack = [], pc = \<lparr>method = ex_m, offset = 1\<rparr>\<rparr>]\<rparr>
   \<and> fst (step (ex_bc [Return (Some IntT)])
        \<lparr>heap = Map.empty, frames = [ex_frame [], ex_frame [Value_int 9]]\<rparr>) =
        Continue \<lparr>heap = Map.empty, frames =
          [\<lparr>locals = Map.empty, stack = [Value_int 9], pc = \<lparr>method = ex_m, offset = 1\<rparr>\<rparr>]\<rparr>"
  using return_semantics [where s = "\<lambda>m. Inr [Return None]" and m = ex_m and rest = "[]"
      and vs = "[]"
      and ?st1.0 = "ex_state [Value_int 7]" and ?fr1.0 = "ex_frame [Value_int 7]"
      and ?bc1.0 = "ex_bc [Return (Some IntT)]" and ?t1.0 = "Some IntT"
      and ?bc1' = "(ex_bc [Return (Some IntT)])\<lparr>methods := [ex_m \<mapsto> [Return (Some IntT)]]\<rparr>"
      and ?st2.0 = "\<lparr>heap = Map.empty, frames = [ex_frame [], ex_frame []]\<rparr>"
      and ?fs2.0 = "[]" and ?caller2.0 = "ex_frame []" and ?fr2.0 = "ex_frame []"
      and ?bc2.0 = "ex_bc [Return None]"
      and ?bc2' = "(ex_bc [Return None])\<lparr>methods := [ex_m \<mapsto> [Return None]]\<rparr>"
      and ?st3.0 = "\<lparr>heap = Map.empty, frames = [ex_frame [], ex_frame [Value_int 9]]\<rparr>"
      and ?fs3.0 = "[]" and ?caller3.0 = "ex_frame []" and ?fr3.0 = "ex_frame [Value_int 9]"
      and ?bc3.0 = "ex_bc [Return (Some IntT)]" and ?t3.0 = IntT
      and ?bc3' = "(ex_bc [Return (Some IntT)])\<lparr>methods := [ex_m \<mapsto> [Return (Some IntT)]]\<rparr>"
      and ?stk3.0 = "[]" and v = "Value_int 9"]
    getitem_ex [of "Return (Some IntT)" "[]" "[Value_int 7]"]
    getitem_ex [of "Return None" "[]" "[]"]
    getitem_ex [of "Return (Some IntT)" "[]" "[Value_int 9]"]
  by (simp add: ex_state_def ex_frame_def)

end
